theory Spec2Isabelle
  imports Complex_Main
begin

section \<open>Data model of the snake game (src/src/main.js)\<close>

text \<open>
  A grid cell is the object \<^verbatim>\<open>{x, y}\<close> of the source; the JavaScript numbers that hold
  grid coordinates, directions, scores and attempt counts are integers here.
\<close>

type_synonym cell = "int \<times> int"

definition GRID_COLS :: int where
  "GRID_COLS = 20"

definition GRID_ROWS :: int where
  "GRID_ROWS = 16"

datatype game_state = Idle | Playing | Paused | Over

datatype ui_screen = Menu | Instructions | NoScreen

datatype error = TypeError

text \<open>
  The statistics object. \<^verbatim>\<open>stats.bestScore ?? 0\<close> and \<^verbatim>\<open>!stats.attemptsByDay\<close> in the
  source allow both members to be absent, hence the options; the per-day table maps a
  date key to its count (an entry that is absent, \<^verbatim>\<open>undefined\<close> or \<^verbatim>\<open>null\<close> is
  \<open>None\<close>).
\<close>

record stats_rec =
  bestScore :: "int option"
  attemptsByDay :: "(string \<rightharpoonup> int) option"

text \<open>
  The module-level variables, and two things that are not variables of the module:
  \<open>restartHidden\<close> is the \<^verbatim>\<open>hidden\<close> class of the restart button of the page, and
  \<open>rpos\<close> is the number of calls of \<^verbatim>\<open>Math.random()\<close> made so far. The generator is a
  stream \<open>rnd\<close> of draws, and call number \<open>n\<close> returns \<open>rnd n\<close>.
\<close>

record state =
  score :: int
  gameOver :: bool
  gameState :: game_state
  uiScreen :: ui_screen
  menuIndex :: int
  snake :: "cell list"
  dir :: cell
  nextDir :: cell
  food :: cell
  stats :: stats_rec
  restartHidden :: bool
  rpos :: nat

section \<open>Helpers\<close>

text \<open>
  \<^verbatim>\<open>Math.floor(Math.random() * (maxInclusive - min + 1)) + min\<close>, on the draw \<open>r\<close>. A draw
  is a real number and the product is exact; the rounding of the double product is left out.
\<close>

definition randInt :: "int \<Rightarrow> int \<Rightarrow> real \<Rightarrow> int" where
  "randInt mn maxInclusive r = \<lfloor>r * of_int (maxInclusive - mn + 1)\<rfloor> + mn"

definition isSameCell :: "cell \<Rightarrow> cell \<Rightarrow> bool" where
  "isSameCell a b \<longleftrightarrow> fst a = fst b \<and> snd a = snd b"

text \<open>The remainder operator \<^verbatim>\<open>%\<close> of JavaScript truncates: the result has the sign of the dividend.\<close>

definition js_rem :: "int \<Rightarrow> int \<Rightarrow> int" where
  "js_rem a b = sgn a * (\<bar>a\<bar> mod \<bar>b\<bar>)"

section \<open>Speed model\<close>

text \<open>\<^verbatim>\<open>Math.floor(s / 5)\<close> divides as a real number and rounds down.\<close>

definition speedLevelForScore :: "int \<Rightarrow> int" where
  "speedLevelForScore s = min 10 (1 + \<lfloor>real_of_int s / 5\<rfloor>)"

definition stepMsForScore :: "int \<Rightarrow> int" where
  "stepMsForScore s =
     (let level = min 10 (1 + \<lfloor>real_of_int s / 5\<rfloor>);
          tick = max 80 (220 - (level - 1) * 15)
      in tick)"

section \<open>Output sinks\<close>

text \<open>
  \<^verbatim>\<open>updateHud\<close> writes three text nodes of the page and \<^verbatim>\<open>saveStats\<close> writes the
  statistics to \<^verbatim>\<open>localStorage\<close> (failures swallowed). Neither assigns a module-level
  variable, and nothing reads the written values back before the page is loaded again, so
  both leave the state as it is.
\<close>

definition updateHud :: "state \<Rightarrow> state" where
  "updateHud st = st"

definition saveStats :: "state \<Rightarrow> state" where
  "saveStats st = st"

section \<open>Game simulation\<close>

definition setDirection :: "int \<Rightarrow> int \<Rightarrow> state \<Rightarrow> state" where
  "setDirection x y st =
     (if x = - fst (dir st) \<and> y = - snd (dir st) then st
      else st\<lparr>nextDir := (x, y)\<rparr>)"

text \<open>
  The \<^verbatim>\<open>for (tries = 0; tries < 5000; tries++)\<close> loop of \<^verbatim>\<open>spawnFood\<close>. Every round
  draws twice, \<open>x\<close> first; \<^verbatim>\<open>continue\<close> is the recursive call, and leaving the loop
  without a free cell reaches the fallback assignment.
\<close>

function spawnFood_loop :: "(nat \<Rightarrow> real) \<Rightarrow> nat \<Rightarrow> state \<Rightarrow> state" where
  "spawnFood_loop rnd tries st =
     (if tries < 5000 then
        (let p = (randInt 0 (GRID_COLS - 1) (rnd (rpos st)),
                  randInt 0 (GRID_ROWS - 1) (rnd (rpos st + 1)));
             st1 = st\<lparr>rpos := rpos st + 2\<rparr>
         in if list_ex (\<lambda>s. isSameCell s p) (snake st1)
            then spawnFood_loop rnd (tries + 1) st1
            else st1\<lparr>food := p\<rparr>)
      else st\<lparr>food := (0, 0)\<rparr>)"
  by pat_completeness auto
termination
  by (relation "measure (\<lambda>(rnd, tries, st). 5000 - tries)") auto

definition spawnFood :: "(nat \<Rightarrow> real) \<Rightarrow> state \<Rightarrow> state" where
  "spawnFood rnd st = spawnFood_loop rnd 0 st"

definition resetGame :: "(nat \<Rightarrow> real) \<Rightarrow> state \<Rightarrow> state" where
  "resetGame rnd st =
     (let st1 = st\<lparr>score := 0, gameOver := False, dir := (1, 0), nextDir := (1, 0)\<rparr>;
          startX = \<lfloor>real_of_int GRID_COLS / 2\<rfloor> - 1;
          startY = \<lfloor>real_of_int GRID_ROWS / 2\<rfloor>;
          st2 = st1\<lparr>snake := [(startX, startY), (startX - 1, startY), (startX - 2, startY)]\<rparr>;
          st3 = spawnFood rnd st2;
          st4 = st3\<lparr>restartHidden := True\<rparr>
      in updateHud st4)"

text \<open>\<open>today\<close> is the key returned by \<^verbatim>\<open>getLocalDateKey()\<close> at the call.\<close>

definition recordAttemptStart :: "string \<Rightarrow> state \<Rightarrow> state" where
  "recordAttemptStart today st =
     (let tbl = (case attemptsByDay (stats st) of None \<Rightarrow> Map.empty | Some m \<Rightarrow> m);
          n = (case tbl today of None \<Rightarrow> 0 | Some c \<Rightarrow> c) + 1;
          st1 = st\<lparr>stats := (stats st)\<lparr>attemptsByDay := Some (tbl(today \<mapsto> n))\<rparr>\<rparr>
      in updateHud (saveStats st1))"

definition maybeUpdateBest :: "state \<Rightarrow> state" where
  "maybeUpdateBest st =
     (if score st > (case bestScore (stats st) of None \<Rightarrow> 0 | Some b \<Rightarrow> b)
      then updateHud (saveStats (st\<lparr>stats := (stats st)\<lparr>bestScore := Some (score st)\<rparr>\<rparr>))
      else st)"

definition startNewGame :: "(nat \<Rightarrow> real) \<Rightarrow> string \<Rightarrow> state \<Rightarrow> state" where
  "startNewGame rnd today st =
     (recordAttemptStart today (resetGame rnd st))\<lparr>gameState := Playing, uiScreen := NoScreen\<rparr>"

definition pauseGame :: "state \<Rightarrow> state" where
  "pauseGame st =
     (if gameState st \<noteq> Playing then st
      else st\<lparr>gameState := Paused, uiScreen := Menu, menuIndex := 1\<rparr>)"

definition resumeGame :: "state \<Rightarrow> state" where
  "resumeGame st =
     (if gameState st \<noteq> Paused then st
      else st\<lparr>gameState := Playing, uiScreen := NoScreen\<rparr>)"

definition togglePause :: "state \<Rightarrow> state" where
  "togglePause st =
     (if gameState st = Playing then pauseGame st
      else if gameState st = Paused then resumeGame st
      else st)"

definition selectMenuItem :: "(nat \<Rightarrow> real) \<Rightarrow> string \<Rightarrow> int \<Rightarrow> state \<Rightarrow> state" where
  "selectMenuItem rnd today index st =
     (if index = 0 then st\<lparr>uiScreen := Instructions\<rparr>
      else if index = 1 then (if gameState st = Paused then resumeGame st else st)
      else if index = 2 then startNewGame rnd today st
      else st)"

text \<open>Lines 256 to 260 of \<^verbatim>\<open>tick\<close>: one step from the head, then the wrap-around on each axis.\<close>

definition newHead :: "cell \<Rightarrow> cell \<Rightarrow> cell" where
  "newHead head d =
     (let nx = fst head + fst d;
          ny = snd head + snd d
      in (js_rem (nx + GRID_COLS) GRID_COLS, js_rem (ny + GRID_ROWS) GRID_ROWS))"

text \<open>The self-collision scan \<^verbatim>\<open>for (i = 1; i < nextSnake.length; i++)\<close>; \<open>True\<close> is the early return.\<close>

function collisionLoop :: "nat \<Rightarrow> cell list \<Rightarrow> cell \<Rightarrow> bool" where
  "collisionLoop i nextSnake next =
     (if i < length nextSnake then
        (if isSameCell (nextSnake ! i) next then True
         else collisionLoop (i + 1) nextSnake next)
      else False)"
  by pat_completeness auto
termination
  by (relation "measure (\<lambda>(i, nextSnake, next). length nextSnake - i)") auto

text \<open>
  \<^verbatim>\<open>[next, ...snake]\<close> followed by \<^verbatim>\<open>pop()\<close> unless the food was eaten.
\<close>

definition candidateBody :: "cell \<Rightarrow> bool \<Rightarrow> cell list \<Rightarrow> cell list" where
  "candidateBody next ate body = (if \<not> ate then butlast (next # body) else next # body)"

text \<open>
  One simulation step. With an empty snake \<^verbatim>\<open>snake[0]\<close> is \<^verbatim>\<open>undefined\<close> and reading
  its \<^verbatim>\<open>x\<close> throws.
\<close>

definition tick :: "(nat \<Rightarrow> real) \<Rightarrow> state \<Rightarrow> error + state" where
  "tick rnd st =
     (if gameOver st \<or> gameState st \<noteq> Playing then Inr st
      else
        (let st1 = st\<lparr>dir := nextDir st\<rparr> in
         case snake st1 of
           [] \<Rightarrow> Inl TypeError
         | head # _ \<Rightarrow>
             (let next = newHead head (dir st1);
                  ate = isSameCell next (food st1);
                  nextSnake = candidateBody next ate (snake st1)
              in if collisionLoop 1 nextSnake next
                 then Inr (st1\<lparr>gameOver := True, gameState := Over, restartHidden := False\<rparr>)
                 else
                   (let st2 = st1\<lparr>snake := nextSnake\<rparr> in
                    if ate
                    then Inr (updateHud (maybeUpdateBest (spawnFood rnd (st2\<lparr>score := score st2 + 1\<rparr>))))
                    else Inr st2))))"

section \<open>Sequences of operations\<close>

text \<open>
  The operations that the input handlers and the frame driver apply to the state, with the
  three inline assignments of the key handler (menu up, menu down, leaving the instructions).
\<close>

datatype operation =
    Tick
  | SetDirection int int
  | PauseGame
  | ResumeGame
  | TogglePause
  | SelectMenuItem int
  | StartNewGame
  | MenuUp
  | MenuDown
  | BackToMenu

fun perform :: "(nat \<Rightarrow> real) \<Rightarrow> string \<Rightarrow> operation \<Rightarrow> state \<Rightarrow> error + state" where
  "perform rnd today Tick st = tick rnd st"
| "perform rnd today (SetDirection x y) st = Inr (setDirection x y st)"
| "perform rnd today PauseGame st = Inr (pauseGame st)"
| "perform rnd today ResumeGame st = Inr (resumeGame st)"
| "perform rnd today TogglePause st = Inr (togglePause st)"
| "perform rnd today (SelectMenuItem i) st = Inr (selectMenuItem rnd today i st)"
| "perform rnd today StartNewGame st = Inr (startNewGame rnd today st)"
| "perform rnd today MenuUp st = Inr (st\<lparr>menuIndex := js_rem (menuIndex st + 2) 3\<rparr>)"
| "perform rnd today MenuDown st = Inr (st\<lparr>menuIndex := js_rem (menuIndex st + 1) 3\<rparr>)"
| "perform rnd today BackToMenu st = Inr (st\<lparr>uiScreen := Menu\<rparr>)"

text \<open>An exception thrown by one operation ends the sequence.\<close>

fun performAll :: "(nat \<Rightarrow> real) \<Rightarrow> string \<Rightarrow> operation list \<Rightarrow> state \<Rightarrow> error + state" where
  "performAll rnd today [] st = Inr st"
| "performAll rnd today (a # as) st =
     (case perform rnd today a st of
        Inl e \<Rightarrow> Inl e
      | Inr st' \<Rightarrow> performAll rnd today as st')"

text \<open>The operations that call \<^verbatim>\<open>startNewGame()\<close>.\<close>

fun callsStartNewGame :: "operation \<Rightarrow> bool" where
  "callsStartNewGame StartNewGame = True"
| "callsStartNewGame (SelectMenuItem i) = (i = 2)"
| "callsStartNewGame _ = False"

section \<open>Vocabulary of the properties\<close>

definition in_grid :: "cell \<Rightarrow> bool" where
  "in_grid c \<longleftrightarrow> 0 \<le> fst c \<and> fst c < GRID_COLS \<and> 0 \<le> snd c \<and> snd c < GRID_ROWS"

definition directions :: "cell list" where
  "directions = [(1, 0), (- 1, 0), (0, 1), (0, - 1)]"

text \<open>The count stored for a day, as \<^verbatim>\<open>stats.attemptsByDay?.[key]\<close> reads it.\<close>

definition attemptsOn :: "stats_rec \<Rightarrow> string \<Rightarrow> int option" where
  "attemptsOn s k = (case attemptsByDay s of None \<Rightarrow> None | Some m \<Rightarrow> m k)"

text \<open>The cell that round \<open>t\<close> of \<^verbatim>\<open>spawnFood\<close> draws when the loop starts at draw \<open>n\<close>.\<close>

definition drawnCell :: "(nat \<Rightarrow> real) \<Rightarrow> nat \<Rightarrow> nat \<Rightarrow> cell" where
  "drawnCell rnd n t =
     (randInt 0 (GRID_COLS - 1) (rnd (n + 2 * t)), randInt 0 (GRID_ROWS - 1) (rnd (n + 2 * t + 1)))"

text \<open>A state of the running game used to evaluate the operations on concrete input.\<close>

definition sampleState :: "cell list \<Rightarrow> cell \<Rightarrow> cell \<Rightarrow> state" where
  "sampleState body d f =
     \<lparr>score = 4, gameOver = False, gameState = Playing, uiScreen = NoScreen, menuIndex = 2,
      snake = body, dir = d, nextDir = d, food = f,
      stats = \<lparr>bestScore = Some 9, attemptsByDay = Some [''2026-01-05'' \<mapsto> 3]\<rparr>,
      restartHidden = True, rpos = 0\<rparr>"

text \<open>
  What \<^verbatim>\<open>tick\<close> computes before it decides: the new head, whether it is on the food, and
  the candidate body. A self-collision is a cell of the candidate body at an index from 1
  on that equals the new head.
\<close>

definition tickHead :: "state \<Rightarrow> cell" where
  "tickHead st = newHead (hd (snake st)) (nextDir st)"

definition tickAte :: "state \<Rightarrow> bool" where
  "tickAte st \<longleftrightarrow> tickHead st = food st"

definition tickBody :: "state \<Rightarrow> cell list" where
  "tickBody st = candidateBody (tickHead st) (tickAte st) (snake st)"

definition selfCollides :: "state \<Rightarrow> bool" where
  "selfCollides st \<longleftrightarrow> (\<exists>i \<in> {1 ..< length (tickBody st)}. tickBody st ! i = tickHead st)"

text \<open>
  The values of the variables when the module is loaded (\<open>loaded\<close> is what \<^verbatim>\<open>loadStats()\<close>
  returned, \<open>hidden\<close> the class of the restart button in the page), and the state after the
  bootstrap lines at the end of the file.
\<close>

definition initialState :: "stats_rec \<Rightarrow> bool \<Rightarrow> state" where
  "initialState loaded hidden =
     \<lparr>score = 0, gameOver = False, gameState = Idle, uiScreen = Menu, menuIndex = 2,
      snake = [], dir = (1, 0), nextDir = (1, 0), food = (0, 0),
      stats = loaded, restartHidden = hidden, rpos = 0\<rparr>"

definition bootstrap :: "(nat \<Rightarrow> real) \<Rightarrow> stats_rec \<Rightarrow> bool \<Rightarrow> state" where
  "bootstrap rnd loaded hidden =
     updateHud ((resetGame rnd (initialState loaded hidden))
                  \<lparr>gameState := Idle, uiScreen := Menu, menuIndex := 2\<rparr>)"

text \<open>The input handlers call \<^verbatim>\<open>setDirection\<close> with the four unit vectors only.\<close>

fun handlerOperation :: "operation \<Rightarrow> bool" where
  "handlerOperation (SetDirection x y) = ((x, y) \<in> set directions)"
| "handlerOperation _ = True"

text \<open>What every state of a started program satisfies.\<close>

definition wellFormed :: "state \<Rightarrow> bool" where
  "wellFormed st \<longleftrightarrow>
     snake st \<noteq> [] \<and> list_all in_grid (snake st) \<and> nextDir st \<in> set directions"

text \<open>Streams of draws for concrete runs: every draw 0, and two draws of 1/2 followed by 1/4.\<close>

definition zeroDraws :: "nat \<Rightarrow> real" where
  "zeroDraws n = 0"

definition stepDraws :: "nat \<Rightarrow> real" where
  "stepDraws n = (if n < 2 then 1 / 2 else 1 / 4)"

declare spawnFood_loop.simps [simp del]
declare collisionLoop.simps [simp del]

section \<open>Properties of the speed model\<close>

lemma speedLevel_div: "speedLevelForScore s = min 10 (1 + s div 5)"
proof -
  have "\<lfloor>real_of_int s / 5\<rfloor> = s div 5"
    using floor_divide_of_int_eq [of s 5, where ?'a = real] by simp
  then show ?thesis by (simp add: speedLevelForScore_def)
qed

lemma stepMs_via_level: "stepMsForScore s = max 80 (220 - (speedLevelForScore s - 1) * 15)"
  by (simp add: stepMsForScore_def speedLevelForScore_def)

lemma speedLevel_mono: "s \<le> t \<Longrightarrow> speedLevelForScore s \<le> speedLevelForScore t"
proof -
  assume "s \<le> t"
  then have "s div 5 \<le> t div 5" by (rule zdiv_mono1) simp
  then show ?thesis by (simp add: speedLevel_div)
qed

text \<open>
  Claim C6. For scores \<open>0 \<le> s \<le> t\<close>: the speed level is non-decreasing and at most 10,
  the tick interval is non-increasing and at least 80, and the two functions of the source
  are \<open>min(10, 1 + floor(s/5))\<close> and \<open>max(80, 220 - (level - 1) * 15)\<close>.
\<close>

theorem speed_model_monotone:
  assumes "0 \<le> s" and "s \<le> t"
  shows "speedLevelForScore s \<le> speedLevelForScore t
       \<and> speedLevelForScore s \<le> 10
       \<and> stepMsForScore t \<le> stepMsForScore s
       \<and> 80 \<le> stepMsForScore s
       \<and> speedLevelForScore s = min 10 (1 + \<lfloor>real_of_int s / 5\<rfloor>)
       \<and> stepMsForScore s = max 80 (220 - (speedLevelForScore s - 1) * 15)"
proof -
  have lv: "speedLevelForScore s \<le> speedLevelForScore t"
    using assms(2) by (rule speedLevel_mono)
  have cap: "speedLevelForScore s \<le> 10"
    by (simp add: speedLevel_div)
  have step: "stepMsForScore t \<le> stepMsForScore s"
    using lv by (simp add: stepMs_via_level)
  have fl: "80 \<le> stepMsForScore s"
    by (simp add: stepMs_via_level)
  have lvl: "speedLevelForScore s = min 10 (1 + \<lfloor>real_of_int s / 5\<rfloor>)"
    by (simp add: speedLevelForScore_def)
  from lv cap step fl lvl stepMs_via_level [of s] show ?thesis by blast
qed

theorem speed_model_monotone_witness:
  "(0::int) \<le> 7 \<and> (7::int) \<le> 23
   \<and> speedLevelForScore 7 = 2 \<and> speedLevelForScore 23 = 5
   \<and> stepMsForScore 7 = 205 \<and> stepMsForScore 23 = 160
   \<and> speedLevelForScore 7 \<le> speedLevelForScore 23
   \<and> stepMsForScore 23 \<le> stepMsForScore 7"
  using speed_model_monotone [of 7 23]
  by (simp add: speedLevelForScore_def stepMsForScore_def)


section \<open>The two loops\<close>

lemma collisionLoop_iff:
  "collisionLoop i xs p \<longleftrightarrow> (\<exists>j. i \<le> j \<and> j < length xs \<and> xs ! j = p)"
proof (induction i xs p rule: collisionLoop.induct)
  case (1 i body c)
  show ?case
  proof (cases "i < length body")
    case False
    then show ?thesis
      by (subst collisionLoop.simps) auto
  next
    case inb: True
    show ?thesis
    proof (cases "isSameCell (body ! i) c")
      case True
      then have "body ! i = c"
        by (simp add: isSameCell_def prod_eq_iff)
      with inb True show ?thesis
        by (subst collisionLoop.simps) auto
    next
      case False
      then have ne: "body ! i \<noteq> c"
        by (auto simp: isSameCell_def)
      have "collisionLoop i body c = collisionLoop (i + 1) body c"
        using inb False by (subst collisionLoop.simps) simp
      also have "\<dots> \<longleftrightarrow> (\<exists>j. i + 1 \<le> j \<and> j < length body \<and> body ! j = c)"
        using "1.IH" [OF inb False] .
      also have "\<dots> \<longleftrightarrow> (\<exists>j. i \<le> j \<and> j < length body \<and> body ! j = c)"
      proof
        assume "\<exists>j. i + 1 \<le> j \<and> j < length body \<and> body ! j = c"
        then obtain j where "i + 1 \<le> j" "j < length body" "body ! j = c"
          by blast
        then show "\<exists>j. i \<le> j \<and> j < length body \<and> body ! j = c"
          by (intro exI [of _ j]) simp
      next
        assume "\<exists>j. i \<le> j \<and> j < length body \<and> body ! j = c"
        then obtain j where j: "i \<le> j" "j < length body" "body ! j = c"
          by blast
        with ne have "j \<noteq> i" by auto
        with j show "\<exists>j. i + 1 \<le> j \<and> j < length body \<and> body ! j = c"
          by (intro exI [of _ j]) simp
      qed
      finally show ?thesis .
    qed
  qed
qed

lemma some_isSameCell: "list_ex (\<lambda>s. isSameCell s p) xs \<longleftrightarrow> p \<in> set xs"
  by (auto simp: list_ex_iff isSameCell_def prod_eq_iff)

lemma drawnCell_shift: "drawnCell rnd (Suc (Suc n)) k = drawnCell rnd n (Suc k)"
  by (simp add: drawnCell_def)

lemma spawnFood_loop_frame:
  "\<exists>n f. spawnFood_loop rnd tries st = st\<lparr>food := f, rpos := n\<rparr>"
proof (induction rnd tries st rule: spawnFood_loop.induct)
  case (1 rnd tries st)
  show ?case
  proof (cases "tries < 5000")
    case False
    then have "spawnFood_loop rnd tries st = st\<lparr>food := (0, 0), rpos := rpos st\<rparr>"
      by (subst spawnFood_loop.simps) simp
    then show ?thesis by blast
  next
    case inb: True
    define p where "p = drawnCell rnd (rpos st) 0"
    define st1 where "st1 = st\<lparr>rpos := rpos st + 2\<rparr>"
    show ?thesis
    proof (cases "p \<in> set (snake st)")
      case False
      then have "spawnFood_loop rnd tries st = st\<lparr>food := p, rpos := rpos st + 2\<rparr>"
        using inb
        by (subst spawnFood_loop.simps) (simp add: Let_def some_isSameCell p_def drawnCell_def)
      then show ?thesis by blast
    next
      case True
      then have call: "spawnFood_loop rnd tries st = spawnFood_loop rnd (tries + 1) st1"
        using inb
        by (subst spawnFood_loop.simps) (simp add: Let_def some_isSameCell p_def drawnCell_def st1_def)
      have "list_ex (\<lambda>s. isSameCell s p) (snake st1)"
        using True by (simp add: some_isSameCell st1_def)
      from "1.IH" [OF inb _ _ this]
      obtain n f where "spawnFood_loop rnd (tries + 1) st1 = st1\<lparr>food := f, rpos := n\<rparr>"
        by (auto simp: p_def drawnCell_def st1_def)
      with call have "spawnFood_loop rnd tries st = st\<lparr>food := f, rpos := n\<rparr>"
        by (simp add: st1_def)
      then show ?thesis by blast
    qed
  qed
qed

lemma spawnFood_loop_snake [simp]: "snake (spawnFood_loop rnd tries st) = snake st"
proof -
  obtain n f where "spawnFood_loop rnd tries st = st\<lparr>food := f, rpos := n\<rparr>"
    using spawnFood_loop_frame by blast
  then show ?thesis by simp
qed

lemma spawnFood_loop_food:
  "food (spawnFood_loop rnd tries st) \<notin> set (snake st)
   \<or> (food (spawnFood_loop rnd tries st) = (0, 0)
      \<and> (\<forall>k. tries + k < 5000 \<longrightarrow> drawnCell rnd (rpos st) k \<in> set (snake st)))"
proof (induction rnd tries st rule: spawnFood_loop.induct)
  case (1 rnd tries st)
  show ?case
  proof (cases "tries < 5000")
    case False
    then have "food (spawnFood_loop rnd tries st) = (0, 0)"
      by (subst spawnFood_loop.simps) simp
    with False show ?thesis by simp
  next
    case inb: True
    define p where "p = (randInt 0 (GRID_COLS - 1) (rnd (rpos st)),
                         randInt 0 (GRID_ROWS - 1) (rnd (rpos st + 1)))"
    define st1 where "st1 = st\<lparr>rpos := rpos st + 2\<rparr>"
    have p0: "p = drawnCell rnd (rpos st) 0"
      by (simp add: p_def drawnCell_def)
    show ?thesis
    proof (cases "p \<in> set (snake st)")
      case False
      then have "food (spawnFood_loop rnd tries st) = p"
        using inb
        by (subst spawnFood_loop.simps) (simp add: Let_def some_isSameCell p_def)
      with False show ?thesis by simp
    next
      case True
      then have hit: "list_ex (\<lambda>s. isSameCell s p) (snake st1)"
        by (simp add: some_isSameCell st1_def)
      have call: "spawnFood_loop rnd tries st = spawnFood_loop rnd (tries + 1) st1"
        using inb True
        by (subst spawnFood_loop.simps) (simp add: Let_def some_isSameCell p_def st1_def)
      from "1.IH" [OF inb p_def st1_def hit]
      consider "food (spawnFood_loop rnd (tries + 1) st1) \<notin> set (snake st1)"
        | "food (spawnFood_loop rnd (tries + 1) st1) = (0, 0)"
          "\<forall>k. tries + 1 + k < 5000 \<longrightarrow> drawnCell rnd (rpos st1) k \<in> set (snake st1)"
        by blast
      then show ?thesis
      proof cases
        case 1
        then show ?thesis by (simp add: call st1_def)
      next
        case 2
        have "drawnCell rnd (rpos st) k \<in> set (snake st)" if "tries + k < 5000" for k
        proof (cases k)
          case 0
          with True p0 show ?thesis by simp
        next
          case (Suc m)
          with that have "tries + 1 + m < 5000" by simp
          with 2(2) have "drawnCell rnd (rpos st1) m \<in> set (snake st1)" by blast
          then show ?thesis
            by (simp add: st1_def Suc drawnCell_shift)
        qed
        with 2(1) show ?thesis by (simp add: call)
      qed
    qed
  qed
qed


lemma spawnFood_loop_all_hit:
  "(\<forall>k. tries + k < 5000 \<longrightarrow> drawnCell rnd (rpos st) k \<in> set (snake st))
   \<Longrightarrow> food (spawnFood_loop rnd tries st) = (0, 0)"
proof (induction rnd tries st rule: spawnFood_loop.induct)
  case (1 rnd tries st)
  show ?case
  proof (cases "tries < 5000")
    case False
    then show ?thesis
      by (subst spawnFood_loop.simps) simp
  next
    case inb: True
    define p where "p = (randInt 0 (GRID_COLS - 1) (rnd (rpos st)),
                         randInt 0 (GRID_ROWS - 1) (rnd (rpos st + 1)))"
    define st1 where "st1 = st\<lparr>rpos := rpos st + 2\<rparr>"
    have "drawnCell rnd (rpos st) 0 \<in> set (snake st)"
      using "1.prems" inb by simp
    then have pin: "p \<in> set (snake st)"
      by (simp add: p_def drawnCell_def)
    then have hit: "list_ex (\<lambda>s. isSameCell s p) (snake st1)"
      by (simp add: some_isSameCell st1_def)
    have call: "spawnFood_loop rnd tries st = spawnFood_loop rnd (tries + 1) st1"
      using inb pin
      by (subst spawnFood_loop.simps) (simp add: Let_def some_isSameCell p_def st1_def)
    have "drawnCell rnd (rpos st1) k \<in> set (snake st1)" if "tries + 1 + k < 5000" for k
    proof -
      from that have "tries + Suc k < 5000" by simp
      with "1.prems" have "drawnCell rnd (rpos st) (Suc k) \<in> set (snake st)" by blast
      then show ?thesis
        by (simp add: st1_def drawnCell_shift)
    qed
    then have "food (spawnFood_loop rnd (tries + 1) st1) = (0, 0)"
      using "1.IH" [OF inb p_def st1_def hit] by blast
    then show ?thesis by (simp add: call)
  qed
qed

lemma spawnFood_frame: "\<exists>n f. spawnFood rnd st = st\<lparr>food := f, rpos := n\<rparr>"
  unfolding spawnFood_def by (rule spawnFood_loop_frame)

section \<open>Food placement\<close>

text \<open>
  Claim C4, as the code has it. The food that \<^verbatim>\<open>spawnFood()\<close> places is on no snake cell
  whenever one of the 5000 cells it draws is free or the cell (0,0) is free; when all 5000
  draws land on the snake, the food is the fallback cell (0,0).
\<close>

theorem spawnFood_avoids_snake:
  "((\<exists>k < 5000. drawnCell rnd (rpos st) k \<notin> set (snake st)) \<or> (0, 0) \<notin> set (snake st)
      \<longrightarrow> food (spawnFood rnd st) \<notin> set (snake (spawnFood rnd st)))
   \<and> ((\<forall>k < 5000. drawnCell rnd (rpos st) k \<in> set (snake st))
      \<longrightarrow> food (spawnFood rnd st) = (0, 0))"
proof (intro conjI impI)
  assume free: "(\<exists>k < 5000. drawnCell rnd (rpos st) k \<notin> set (snake st)) \<or> (0, 0) \<notin> set (snake st)"
  from spawnFood_loop_food [of rnd 0 st]
  consider "food (spawnFood rnd st) \<notin> set (snake st)"
    | "food (spawnFood rnd st) = (0, 0)"
      "\<forall>k. k < 5000 \<longrightarrow> drawnCell rnd (rpos st) k \<in> set (snake st)"
    unfolding spawnFood_def by auto
  then have "food (spawnFood rnd st) \<notin> set (snake st)"
  proof cases
    case 1
    then show ?thesis .
  next
    case 2
    with free have "(0, 0) \<notin> set (snake st)" by blast
    with 2(1) show ?thesis by simp
  qed
  then show "food (spawnFood rnd st) \<notin> set (snake (spawnFood rnd st))"
    by (simp add: spawnFood_def)
next
  assume "\<forall>k < 5000. drawnCell rnd (rpos st) k \<in> set (snake st)"
  then have "\<forall>k. 0 + k < 5000 \<longrightarrow> drawnCell rnd (rpos st) k \<in> set (snake st)"
    by simp
  then show "food (spawnFood rnd st) = (0, 0)"
    unfolding spawnFood_def by (rule spawnFood_loop_all_hit)
qed

theorem spawnFood_avoids_snake_witness:
  "drawnCell stepDraws (rpos (sampleState [(10, 8), (9, 8), (8, 8)] (1, 0) (10, 8))) 1
     \<notin> set (snake (sampleState [(10, 8), (9, 8), (8, 8)] (1, 0) (10, 8)))
   \<and> food (spawnFood stepDraws (sampleState [(10, 8), (9, 8), (8, 8)] (1, 0) (10, 8))) = (5, 4)
   \<and> food (spawnFood stepDraws (sampleState [(10, 8), (9, 8), (8, 8)] (1, 0) (10, 8)))
     \<notin> set (snake (spawnFood stepDraws (sampleState [(10, 8), (9, 8), (8, 8)] (1, 0) (10, 8))))
   \<and> food (spawnFood zeroDraws (sampleState [(0, 3), (0, 2), (0, 1), (0, 0)] (0, 1) (0, 3))) = (0, 0)"
proof -
  let ?st = "sampleState [(10, 8), (9, 8), (8, 8)] (1, 0) (10, 8)"
  let ?su = "sampleState [(0, 3), (0, 2), (0, 1), (0, 0)] (0, 1) (0, 3)"
  have free: "drawnCell stepDraws (rpos ?st) 1 \<notin> set (snake ?st)"
    by (simp add: drawnCell_def stepDraws_def randInt_def sampleState_def GRID_COLS_def GRID_ROWS_def)
  then have "(\<exists>k < 5000. drawnCell stepDraws (rpos ?st) k \<notin> set (snake ?st))
             \<or> (0, 0) \<notin> set (snake ?st)"
    by (intro disjI1 exI [of _ 1]) simp
  with spawnFood_avoids_snake [of stepDraws ?st]
  have avoid: "food (spawnFood stepDraws ?st) \<notin> set (snake (spawnFood stepDraws ?st))"
    by blast
  have placed: "food (spawnFood stepDraws ?st) = (5, 4)"
    by (simp add: spawnFood_def spawnFood_loop.simps stepDraws_def randInt_def sampleState_def
        GRID_COLS_def GRID_ROWS_def isSameCell_def)
  have "drawnCell zeroDraws (rpos ?su) k = (0, 0)" for k
    by (simp add: drawnCell_def zeroDraws_def randInt_def)
  then have "\<forall>k < 5000. drawnCell zeroDraws (rpos ?su) k \<in> set (snake ?su)"
    by (simp add: sampleState_def)
  with spawnFood_avoids_snake [of zeroDraws ?su]
  have fallback: "food (spawnFood zeroDraws ?su) = (0, 0)"
    by blast
  show ?thesis
    by (rule conjI free placed avoid fallback)+
qed

text \<open>
  Claim C4 as stated fails: with every draw 0 each of the 5000 rounds draws the cell (0,0);
  on a four-cell snake that lies on (0,0) the loop gives up and puts the food on (0,0), a
  snake cell, although 316 cells are free.
\<close>

theorem spawnFood_on_snake_counterexample:
  "int (card (set (snake (sampleState [(3, 0), (2, 0), (1, 0), (0, 0)] (1, 0) (3, 0)))))
     < GRID_COLS * GRID_ROWS
   \<and> food (spawnFood zeroDraws (sampleState [(3, 0), (2, 0), (1, 0), (0, 0)] (1, 0) (3, 0)))
     \<in> set (snake (spawnFood zeroDraws (sampleState [(3, 0), (2, 0), (1, 0), (0, 0)] (1, 0) (3, 0))))"
proof -
  let ?st = "sampleState [(3, 0), (2, 0), (1, 0), (0, 0)] (1, 0) (3, 0)"
  have small: "int (card (set (snake ?st))) < GRID_COLS * GRID_ROWS"
    by (simp add: sampleState_def GRID_COLS_def GRID_ROWS_def)
  have "drawnCell zeroDraws (rpos ?st) k = (0, 0)" for k
    by (simp add: drawnCell_def zeroDraws_def randInt_def)
  then have "\<forall>k. 0 + k < 5000 \<longrightarrow> drawnCell zeroDraws (rpos ?st) k \<in> set (snake ?st)"
    by (simp add: sampleState_def)
  then have "food (spawnFood zeroDraws ?st) = (0, 0)"
    unfolding spawnFood_def by (rule spawnFood_loop_all_hit)
  moreover have "snake (spawnFood zeroDraws ?st) = snake ?st"
    by (simp add: spawnFood_def)
  ultimately have "food (spawnFood zeroDraws ?st) \<in> set (snake (spawnFood zeroDraws ?st))"
    by (simp add: sampleState_def)
  with small show ?thesis by blast
qed


section \<open>One tick\<close>

lemma isSameCell_eq: "isSameCell a b \<longleftrightarrow> a = b"
  by (simp add: isSameCell_def prod_eq_iff)

lemma selfCollides_loop: "collisionLoop (Suc 0) (tickBody st) (tickHead st) \<longleftrightarrow> selfCollides st"
  by (auto simp: collisionLoop_iff selfCollides_def)

lemma tick_idle: "gameOver st \<or> gameState st \<noteq> Playing \<Longrightarrow> tick rnd st = Inr st"
  by (simp add: tick_def)

lemma tick_empty:
  "\<not> gameOver st \<Longrightarrow> gameState st = Playing \<Longrightarrow> snake st = [] \<Longrightarrow> tick rnd st = Inl TypeError"
  by (simp add: tick_def)

lemma tick_playing:
  assumes "gameState st = Playing" and "\<not> gameOver st" and "snake st \<noteq> []"
  shows "tick rnd st =
    (if selfCollides st
     then Inr (st\<lparr>dir := nextDir st, gameOver := True, gameState := Over, restartHidden := False\<rparr>)
     else if tickAte st
     then Inr (updateHud (maybeUpdateBest (spawnFood rnd
                (st\<lparr>dir := nextDir st, snake := tickBody st, score := score st + 1\<rparr>))))
     else Inr (st\<lparr>dir := nextDir st, snake := tickBody st\<rparr>))"
proof -
  from assms(3) obtain h rest where body: "snake st = h # rest"
    by (cases "snake st") auto
  have hd: "newHead h (nextDir st) = tickHead st"
    by (simp add: tickHead_def body)
  have ate: "isSameCell (tickHead st) (food st) = tickAte st"
    by (simp add: isSameCell_eq tickAte_def)
  show ?thesis
  proof (cases "tickAte st")
    case True
    then have cand: "candidateBody (tickHead st) True (h # rest) = tickBody st"
      by (simp add: tickBody_def body)
    show ?thesis
      using assms(1,2) True
      by (simp add: tick_def Let_def body hd ate cand selfCollides_loop)
  next
    case False
    then have cand: "candidateBody (tickHead st) False (h # rest) = tickBody st"
      by (simp add: tickBody_def body)
    show ?thesis
      using assms(1,2) False
      by (simp add: tick_def Let_def body hd ate cand selfCollides_loop)
  qed
qed

lemma tickBody_length:
  "snake st \<noteq> [] \<Longrightarrow> length (tickBody st) = (if tickAte st then length (snake st) + 1 else length (snake st))"
  by (simp add: tickBody_def candidateBody_def)

lemma spawnFood_snake [simp]: "snake (spawnFood rnd st) = snake st"
  by (simp add: spawnFood_def)

lemma maybeUpdateBest_frame:
  "\<exists>b. maybeUpdateBest st = st\<lparr>stats := (stats st)\<lparr>bestScore := b\<rparr>\<rparr>"
proof (cases "score st > (case bestScore (stats st) of None \<Rightarrow> 0 | Some b \<Rightarrow> b)")
  case True
  then have "maybeUpdateBest st = st\<lparr>stats := (stats st)\<lparr>bestScore := Some (score st)\<rparr>\<rparr>"
    by (simp add: maybeUpdateBest_def updateHud_def saveStats_def)
  then show ?thesis by blast
next
  case False
  then have "maybeUpdateBest st = st\<lparr>stats := (stats st)\<lparr>bestScore := bestScore (stats st)\<rparr>\<rparr>"
    by (simp add: maybeUpdateBest_def)
  then show ?thesis by blast
qed

lemma maybeUpdateBest_snake [simp]: "snake (maybeUpdateBest st) = snake st"
  using maybeUpdateBest_frame [of st] by (elim exE) simp

text \<open>
  Claim C1. A tick of the running game that meets no self-collision returns, and the snake
  it leaves is one cell longer when the new head is on the food and as long as before
  otherwise.
\<close>

theorem tick_length:
  assumes "gameState st = Playing" and "\<not> gameOver st" and "snake st \<noteq> []"
    and "\<not> selfCollides st"
  shows "\<exists>st'. tick rnd st = Inr st'
           \<and> length (snake st') =
               (if tickHead st = food st then length (snake st) + 1 else length (snake st))"
proof (cases "tickAte st")
  case True
  let ?st' = "updateHud (maybeUpdateBest (spawnFood rnd
                (st\<lparr>dir := nextDir st, snake := tickBody st, score := score st + 1\<rparr>)))"
  have "tick rnd st = Inr ?st'"
    using assms True by (simp add: tick_playing)
  moreover have "snake ?st' = tickBody st"
    by (simp add: updateHud_def)
  ultimately show ?thesis
    using True tickBody_length [OF assms(3)] by (simp add: tickAte_def)
next
  case False
  have "tick rnd st = Inr (st\<lparr>dir := nextDir st, snake := tickBody st\<rparr>)"
    using assms False by (simp add: tick_playing)
  then show ?thesis
    using False tickBody_length [OF assms(3)] by (simp add: tickAte_def)
qed


text \<open>The scan for a self-collision looks for the new head in the tail of the candidate body.\<close>

lemma selfCollides_tl: "selfCollides st \<longleftrightarrow> tickHead st \<in> set (tl (tickBody st))"
proof
  assume "selfCollides st"
  then obtain i where i: "1 \<le> i" "i < length (tickBody st)" "tickBody st ! i = tickHead st"
    by (auto simp: selfCollides_def)
  then have "tl (tickBody st) ! (i - 1) = tickHead st" "i - 1 < length (tl (tickBody st))"
    by (simp_all add: nth_tl)
  then show "tickHead st \<in> set (tl (tickBody st))"
    by (metis nth_mem)
next
  assume "tickHead st \<in> set (tl (tickBody st))"
  then obtain j where j: "j < length (tl (tickBody st))" "tl (tickBody st) ! j = tickHead st"
    by (auto simp: in_set_conv_nth)
  then have "Suc j \<in> {1 ..< length (tickBody st)}" "tickBody st ! Suc j = tickHead st"
    by (simp_all add: nth_tl)
  then show "selfCollides st"
    unfolding selfCollides_def by blast
qed

lemmas sample_simps =
  sampleState_def tickHead_def tickAte_def tickBody_def candidateBody_def newHead_def
  js_rem_def GRID_COLS_def GRID_ROWS_def

theorem tick_length_witness:
  "gameState (sampleState [(5, 5), (4, 5), (3, 5)] (1, 0) (6, 5)) = Playing
   \<and> \<not> gameOver (sampleState [(5, 5), (4, 5), (3, 5)] (1, 0) (6, 5))
   \<and> snake (sampleState [(5, 5), (4, 5), (3, 5)] (1, 0) (6, 5)) \<noteq> []
   \<and> \<not> selfCollides (sampleState [(5, 5), (4, 5), (3, 5)] (1, 0) (6, 5))
   \<and> tickHead (sampleState [(5, 5), (4, 5), (3, 5)] (1, 0) (6, 5))
       = food (sampleState [(5, 5), (4, 5), (3, 5)] (1, 0) (6, 5))
   \<and> (\<exists>st'. tick stepDraws (sampleState [(5, 5), (4, 5), (3, 5)] (1, 0) (6, 5)) = Inr st'
         \<and> length (snake st') = 4)
   \<and> gameState (sampleState [(5, 5), (4, 5), (3, 5)] (1, 0) (12, 3)) = Playing
   \<and> \<not> gameOver (sampleState [(5, 5), (4, 5), (3, 5)] (1, 0) (12, 3))
   \<and> snake (sampleState [(5, 5), (4, 5), (3, 5)] (1, 0) (12, 3)) \<noteq> []
   \<and> \<not> selfCollides (sampleState [(5, 5), (4, 5), (3, 5)] (1, 0) (12, 3))
   \<and> tickHead (sampleState [(5, 5), (4, 5), (3, 5)] (1, 0) (12, 3))
       \<noteq> food (sampleState [(5, 5), (4, 5), (3, 5)] (1, 0) (12, 3))
   \<and> (\<exists>st'. tick stepDraws (sampleState [(5, 5), (4, 5), (3, 5)] (1, 0) (12, 3)) = Inr st'
         \<and> length (snake st') = 3)"
proof -
  let ?st = "sampleState [(5, 5), (4, 5), (3, 5)] (1, 0) (6, 5)"
  let ?su = "sampleState [(5, 5), (4, 5), (3, 5)] (1, 0) (12, 3)"
  have h1: "gameState ?st = Playing" and h2: "\<not> gameOver ?st" and h3: "snake ?st \<noteq> []"
    by (simp_all add: sampleState_def)
  have h4: "\<not> selfCollides ?st"
    by (simp add: selfCollides_tl sample_simps)
  have ate: "tickHead ?st = food ?st"
    by (simp add: sample_simps)
  have len: "length (snake ?st) = 3"
    by (simp add: sampleState_def)
  from tick_length [OF h1 h2 h3 h4, of stepDraws] ate len
  have grown: "\<exists>st'. tick stepDraws ?st = Inr st' \<and> length (snake st') = 4"
    by simp
  have g1: "gameState ?su = Playing" and g2: "\<not> gameOver ?su" and g3: "snake ?su \<noteq> []"
    by (simp_all add: sampleState_def)
  have g4: "\<not> selfCollides ?su"
    by (simp add: selfCollides_tl sample_simps)
  have miss: "tickHead ?su \<noteq> food ?su"
    by (simp add: sample_simps)
  have len': "length (snake ?su) = 3"
    by (simp add: sampleState_def)
  from tick_length [OF g1 g2 g3 g4, of stepDraws] miss len'
  have same: "\<exists>st'. tick stepDraws ?su = Inr st' \<and> length (snake st') = 3"
    by simp
  show ?thesis
    by (rule conjI h1 h2 h3 h4 ate grown g1 g2 g3 g4 miss same)+
qed

section \<open>Wrap-around\<close>

lemma newHead_on_grid: "in_grid h \<Longrightarrow> d \<in> set directions \<Longrightarrow> in_grid (newHead h d)"
proof -
  assume "in_grid h" and "d \<in> set directions"
  then have h: "0 \<le> fst h" "fst h < 20" "0 \<le> snd h" "snd h < 16"
    and d: "d = (1, 0) \<or> d = (- 1, 0) \<or> d = (0, 1) \<or> d = (0, - 1)"
    by (auto simp: in_grid_def directions_def GRID_COLS_def GRID_ROWS_def)
  from d h show ?thesis
    by (elim disjE)
       (simp_all add: in_grid_def newHead_def js_rem_def GRID_COLS_def GRID_ROWS_def)
qed

text \<open>
  Claim C2. From a head on the grid and one of the four directions, the new head that
  \<^verbatim>\<open>tick\<close> computes is on the grid. A head at (19,5) moving (1,0) wraps to (0,5); one step
  left from column 0 lands in the last column, one step up from row 0 in the last row.
\<close>

theorem newHead_in_grid:
  "(in_grid h \<and> d \<in> set directions \<longrightarrow> in_grid (newHead h d))
   \<and> newHead (19, 5) (1, 0) = (0, 5)
   \<and> (in_grid (0, y) \<longrightarrow> newHead (0, y) (- 1, 0) = (GRID_COLS - 1, y))
   \<and> (in_grid (x, 0) \<longrightarrow> newHead (x, 0) (0, - 1) = (x, GRID_ROWS - 1))"
proof (intro conjI impI)
  assume "in_grid h \<and> d \<in> set directions"
  then show "in_grid (newHead h d)"
    by (simp add: newHead_on_grid)
next
  show "newHead (19, 5) (1, 0) = (0, 5)"
    by (simp add: newHead_def js_rem_def GRID_COLS_def GRID_ROWS_def)
next
  assume "in_grid (0, y)"
  then show "newHead (0, y) (- 1, 0) = (GRID_COLS - 1, y)"
    by (simp add: in_grid_def newHead_def js_rem_def GRID_COLS_def GRID_ROWS_def)
next
  assume "in_grid (x, 0)"
  then show "newHead (x, 0) (0, - 1) = (x, GRID_ROWS - 1)"
    by (simp add: in_grid_def newHead_def js_rem_def GRID_COLS_def GRID_ROWS_def)
qed


theorem newHead_in_grid_witness:
  "in_grid (0, 0) \<and> (- 1, 0) \<in> set directions \<and> (0, - 1) \<in> set directions
   \<and> in_grid (newHead (0, 0) (- 1, 0)) \<and> newHead (0, 0) (- 1, 0) = (19, 0)
   \<and> in_grid (newHead (0, 0) (0, - 1)) \<and> newHead (0, 0) (0, - 1) = (0, 15)"
proof -
  have c: "in_grid (0, 0)"
    by (simp add: in_grid_def GRID_COLS_def GRID_ROWS_def)
  have d1: "(- 1, 0) \<in> set directions" and d2: "(0, - 1) \<in> set directions"
    by (simp_all add: directions_def)
  note left = newHead_in_grid [of "(0, 0)" "(- 1, 0)" 0 0]
  note up = newHead_in_grid [of "(0, 0)" "(0, - 1)" 0 0]
  from left c d1 have a1: "in_grid (newHead (0, 0) (- 1, 0))" by blast
  from left c have "newHead (0, 0) (- 1, 0) = (GRID_COLS - 1, 0)" by blast
  then have a2: "newHead (0, 0) (- 1, 0) = (19, 0)" by (simp add: GRID_COLS_def)
  from up c d2 have b1: "in_grid (newHead (0, 0) (0, - 1))" by blast
  from up c have "newHead (0, 0) (0, - 1) = (0, GRID_ROWS - 1)" by blast
  then have b2: "newHead (0, 0) (0, - 1) = (0, 15)" by (simp add: GRID_ROWS_def)
  note a = a1 a2 and b = b1 b2
  from c d1 d2 a b show ?thesis by blast
qed

section \<open>Game over\<close>

lemma perform_after_game_over:
  assumes "gameOver st" and "gameState st = Over" and "\<not> callsStartNewGame a"
  shows "\<exists>st'. perform rnd today a st = Inr st' \<and> snake st' = snake st \<and> score st' = score st
           \<and> gameOver st' \<and> gameState st' = Over"
  using assms
  by (cases a)
     (simp_all add: tick_def setDirection_def pauseGame_def resumeGame_def togglePause_def
        selectMenuItem_def)

lemma performAll_after_game_over:
  assumes "gameOver st" and "gameState st = Over" and "\<forall>a \<in> set ops. \<not> callsStartNewGame a"
  shows "\<exists>st'. performAll rnd today ops st = Inr st' \<and> snake st' = snake st \<and> score st' = score st
           \<and> gameOver st' \<and> gameState st' = Over"
  using assms
proof (induction ops arbitrary: st)
  case Nil
  then show ?case by simp
next
  case (Cons a ops)
  from Cons.prems have "\<not> callsStartNewGame a" by simp
  from perform_after_game_over [OF Cons.prems(1,2) this, of rnd today]
  obtain st1 where st1: "perform rnd today a st = Inr st1" "snake st1 = snake st"
    "score st1 = score st" "gameOver st1" "gameState st1 = Over"
    by blast
  from Cons.prems have "\<forall>a \<in> set ops. \<not> callsStartNewGame a" by simp
  from Cons.IH [OF st1(4,5) this]
  obtain st2 where "performAll rnd today ops st1 = Inr st2" "snake st2 = snake st1"
    "score st2 = score st1" "gameOver st2" "gameState st2 = Over"
    by blast
  with st1 show ?case by simp
qed

text \<open>
  Claim C3. When the new head equals a cell of the candidate body at an index from 1 on,
  the tick sets the game state to over; after that every sequence of operations that does
  not call \<^verbatim>\<open>startNewGame()\<close>, ticks included, runs without an exception and leaves snake
  and score as they were.
\<close>

theorem self_collision_ends_game:
  assumes "gameState st = Playing" and "\<not> gameOver st" and "snake st \<noteq> []"
    and "selfCollides st"
    and "\<forall>a \<in> set ops. \<not> callsStartNewGame a"
  shows "\<exists>st1 st2. tick rnd st = Inr st1 \<and> gameState st1 = Over
           \<and> performAll rnd today ops st1 = Inr st2
           \<and> snake st2 = snake st \<and> score st2 = score st \<and> gameState st2 = Over"
proof -
  let ?st1 = "st\<lparr>dir := nextDir st, gameOver := True, gameState := Over, restartHidden := False\<rparr>"
  have t: "tick rnd st = Inr ?st1"
    using assms(1-4) by (simp add: tick_playing)
  have "gameOver ?st1" and "gameState ?st1 = Over"
    by simp_all
  from performAll_after_game_over [OF this assms(5), of rnd today]
  obtain st2 where "performAll rnd today ops ?st1 = Inr st2" "snake st2 = snake ?st1"
    "score st2 = score ?st1" "gameState st2 = Over"
    by blast
  with t show ?thesis by simp
qed

theorem self_collision_ends_game_witness:
  "gameState (sampleState [(5, 5), (5, 6), (6, 6), (6, 5), (7, 5)] (1, 0) (12, 3)) = Playing
   \<and> \<not> gameOver (sampleState [(5, 5), (5, 6), (6, 6), (6, 5), (7, 5)] (1, 0) (12, 3))
   \<and> snake (sampleState [(5, 5), (5, 6), (6, 6), (6, 5), (7, 5)] (1, 0) (12, 3)) \<noteq> []
   \<and> selfCollides (sampleState [(5, 5), (5, 6), (6, 6), (6, 5), (7, 5)] (1, 0) (12, 3))
   \<and> \<not> list_ex callsStartNewGame
         [Tick, SetDirection 0 1, TogglePause, Tick, SelectMenuItem 1, MenuDown, Tick]
   \<and> (\<exists>st1 st2.
         tick stepDraws (sampleState [(5, 5), (5, 6), (6, 6), (6, 5), (7, 5)] (1, 0) (12, 3)) = Inr st1
         \<and> gameState st1 = Over
         \<and> performAll stepDraws ''2026-01-05''
             [Tick, SetDirection 0 1, TogglePause, Tick, SelectMenuItem 1, MenuDown, Tick] st1 = Inr st2
         \<and> snake st2 = [(5, 5), (5, 6), (6, 6), (6, 5), (7, 5)] \<and> score st2 = 4
         \<and> gameState st2 = Over)"
proof -
  let ?st = "sampleState [(5, 5), (5, 6), (6, 6), (6, 5), (7, 5)] (1, 0) (12, 3)"
  let ?ops = "[Tick, SetDirection 0 1, TogglePause, Tick, SelectMenuItem 1, MenuDown, Tick]"
  have h1: "gameState ?st = Playing" and h2: "\<not> gameOver ?st" and h3: "snake ?st \<noteq> []"
    by (simp_all add: sampleState_def)
  have h4: "selfCollides ?st"
    by (simp add: selfCollides_tl sample_simps)
  have h5: "\<forall>a \<in> set ?ops. \<not> callsStartNewGame a"
    by simp
  have v: "snake ?st = [(5, 5), (5, 6), (6, 6), (6, 5), (7, 5)]" "score ?st = 4"
    by (simp_all add: sampleState_def)
  from self_collision_ends_game [OF h1 h2 h3 h4 h5, of stepDraws "''2026-01-05''"]
  have "\<exists>st1 st2. tick stepDraws ?st = Inr st1 \<and> gameState st1 = Over
          \<and> performAll stepDraws ''2026-01-05'' ?ops st1 = Inr st2
          \<and> snake st2 = [(5, 5), (5, 6), (6, 6), (6, 5), (7, 5)] \<and> score st2 = 4
          \<and> gameState st2 = Over"
    unfolding v .
  moreover have "\<not> list_ex callsStartNewGame ?ops"
    by simp
  ultimately show ?thesis
    using h1 h2 h3 h4 by blast
qed

text \<open>
  Claim C10. A tick that detects a self-collision returns with snake, score and food as
  they were before the call. The variables it has assigned are the latched direction, the
  game-over flag and the game state; the restart button of the page is shown.
\<close>

theorem self_collision_keeps_snake:
  assumes "gameState st = Playing" and "\<not> gameOver st" and "snake st \<noteq> []"
    and "selfCollides st"
  shows "\<exists>st'. tick rnd st = Inr st'
           \<and> snake st' = snake st \<and> score st' = score st \<and> food st' = food st
           \<and> st' = st\<lparr>dir := nextDir st, gameOver := True, gameState := Over,
                      restartHidden := False\<rparr>"
  using assms by (simp add: tick_playing)

theorem self_collision_keeps_snake_witness:
  "gameState (sampleState [(2, 2), (2, 3), (3, 3), (3, 2), (4, 2)] (1, 0) (12, 3)) = Playing
   \<and> \<not> gameOver (sampleState [(2, 2), (2, 3), (3, 3), (3, 2), (4, 2)] (1, 0) (12, 3))
   \<and> snake (sampleState [(2, 2), (2, 3), (3, 3), (3, 2), (4, 2)] (1, 0) (12, 3)) \<noteq> []
   \<and> selfCollides (sampleState [(2, 2), (2, 3), (3, 3), (3, 2), (4, 2)] (1, 0) (12, 3))
   \<and> (\<exists>st'. tick zeroDraws (sampleState [(2, 2), (2, 3), (3, 3), (3, 2), (4, 2)] (1, 0) (12, 3)) = Inr st'
         \<and> snake st' = [(2, 2), (2, 3), (3, 3), (3, 2), (4, 2)] \<and> score st' = 4
         \<and> food st' = (12, 3) \<and> gameOver st' \<and> gameState st' = Over)"
proof -
  let ?st = "sampleState [(2, 2), (2, 3), (3, 3), (3, 2), (4, 2)] (1, 0) (12, 3)"
  have h1: "gameState ?st = Playing" and h2: "\<not> gameOver ?st" and h3: "snake ?st \<noteq> []"
    by (simp_all add: sampleState_def)
  have h4: "selfCollides ?st"
    by (simp add: selfCollides_tl sample_simps)
  have v: "snake ?st = [(2, 2), (2, 3), (3, 3), (3, 2), (4, 2)]" "score ?st = 4"
    "food ?st = (12, 3)"
    by (simp_all add: sampleState_def)
  from self_collision_keeps_snake [OF h1 h2 h3 h4, of zeroDraws]
  obtain st' where "tick zeroDraws ?st = Inr st'" "snake st' = snake ?st" "score st' = score ?st"
    "food st' = food ?st"
    "st' = ?st\<lparr>dir := nextDir ?st, gameOver := True, gameState := Over, restartHidden := False\<rparr>"
    by blast
  then have "tick zeroDraws ?st = Inr st' \<and> snake st' = [(2, 2), (2, 3), (3, 3), (3, 2), (4, 2)]
      \<and> score st' = 4 \<and> food st' = (12, 3) \<and> gameOver st' \<and> gameState st' = Over"
    by (simp add: v)
  then have "\<exists>st'. tick zeroDraws ?st = Inr st' \<and> snake st' = [(2, 2), (2, 3), (3, 3), (3, 2), (4, 2)]
      \<and> score st' = 4 \<and> food st' = (12, 3) \<and> gameOver st' \<and> gameState st' = Over"
    by blast
  with h1 h2 h3 h4 show ?thesis by blast
qed



section \<open>Direction input\<close>

text \<open>
  Claim C5. For each of the four directions \<open>d\<close> and any current direction:
  \<^verbatim>\<open>setDirection\<close> called with the exact opposite of the current direction returns the
  state as it was, pending direction included; called with any other \<open>d\<close> it sets the
  pending direction to \<open>d\<close> and nothing else.
\<close>

theorem setDirection_reversal:
  assumes "d \<in> set directions"
  shows "(d = (- fst (dir st), - snd (dir st)) \<longrightarrow> setDirection (fst d) (snd d) st = st)
       \<and> (d \<noteq> (- fst (dir st), - snd (dir st))
            \<longrightarrow> setDirection (fst d) (snd d) st = st\<lparr>nextDir := d\<rparr>)"
  by (cases d) (simp add: setDirection_def)

theorem setDirection_reversal_witness:
  "(- 1, 0) \<in> set directions \<and> (0, 1) \<in> set directions
   \<and> (- 1, 0) = (- fst (dir (sampleState [(5, 5), (4, 5), (3, 5)] (1, 0) (6, 5))),
                  - snd (dir (sampleState [(5, 5), (4, 5), (3, 5)] (1, 0) (6, 5))))
   \<and> (0, 1) \<noteq> (- fst (dir (sampleState [(5, 5), (4, 5), (3, 5)] (1, 0) (6, 5))),
                   - snd (dir (sampleState [(5, 5), (4, 5), (3, 5)] (1, 0) (6, 5))))
   \<and> nextDir (setDirection (- 1) 0 (sampleState [(5, 5), (4, 5), (3, 5)] (1, 0) (6, 5))) = (1, 0)
   \<and> nextDir (setDirection 0 1 (sampleState [(5, 5), (4, 5), (3, 5)] (1, 0) (6, 5))) = (0, 1)"
proof -
  let ?st = "sampleState [(5, 5), (4, 5), (3, 5)] (1, 0) (6, 5)"
  have d1: "(- 1, 0) \<in> set directions" and d2: "(0, 1) \<in> set directions"
    by (simp_all add: directions_def)
  have o1: "(- 1, 0) = (- fst (dir ?st), - snd (dir ?st))"
    and o2: "(0, 1) \<noteq> (- fst (dir ?st), - snd (dir ?st))"
    by (simp_all add: sampleState_def)
  from setDirection_reversal [OF d1, of ?st] o1
  have "setDirection (fst (- 1 :: int, 0 :: int)) (snd (- 1 :: int, 0 :: int)) ?st = ?st"
    by blast
  then have r1: "nextDir (setDirection (- 1) 0 ?st) = (1, 0)"
    by (simp add: sampleState_def)
  from setDirection_reversal [OF d2, of ?st] o2
  have "setDirection (fst (0 :: int, 1 :: int)) (snd (0 :: int, 1 :: int)) ?st = ?st\<lparr>nextDir := (0, 1)\<rparr>"
    by blast
  then have r2: "nextDir (setDirection 0 1 ?st) = (0, 1)"
    by simp
  from d1 d2 o1 o2 r1 r2 show ?thesis by blast
qed

section \<open>A new game\<close>

lemma resetGame_result:
  "\<exists>n f. resetGame rnd st =
     st\<lparr>score := 0, gameOver := False, dir := (1, 0), nextDir := (1, 0),
        snake := [(9, 8), (8, 8), (7, 8)], food := f, rpos := n, restartHidden := True\<rparr>"
proof -
  let ?st2 = "st\<lparr>score := 0, gameOver := False, dir := (1, 0), nextDir := (1, 0),
                snake := [(9, 8), (8, 8), (7, 8)]\<rparr>"
  obtain n f where sp: "spawnFood rnd ?st2 = ?st2\<lparr>food := f, rpos := n\<rparr>"
    using spawnFood_frame by blast
  have "resetGame rnd st = (spawnFood rnd ?st2)\<lparr>restartHidden := True\<rparr>"
    by (simp add: resetGame_def Let_def updateHud_def GRID_COLS_def GRID_ROWS_def)
  also have "\<dots> = st\<lparr>score := 0, gameOver := False, dir := (1, 0), nextDir := (1, 0),
        snake := [(9, 8), (8, 8), (7, 8)], food := f, rpos := n, restartHidden := True\<rparr>"
    by (simp add: sp)
  finally show ?thesis by blast
qed

text \<open>
  Claim C7. After \<^verbatim>\<open>resetGame()\<close> on the 20 by 16 grid the snake is (9,8), (8,8), (7,8)
  head first, current and pending direction are (1,0), the score is 0 and the game-over
  flag is cleared, whatever the state and the draws were.
\<close>

theorem resetGame_initial:
  "snake (resetGame rnd st) = [(9, 8), (8, 8), (7, 8)]
   \<and> dir (resetGame rnd st) = (1, 0) \<and> nextDir (resetGame rnd st) = (1, 0)
   \<and> score (resetGame rnd st) = 0 \<and> \<not> gameOver (resetGame rnd st)"
proof -
  obtain n f where "resetGame rnd st =
     st\<lparr>score := 0, gameOver := False, dir := (1, 0), nextDir := (1, 0),
        snake := [(9, 8), (8, 8), (7, 8)], food := f, rpos := n, restartHidden := True\<rparr>"
    using resetGame_result by blast
  then show ?thesis by simp
qed

theorem resetGame_initial_witness:
  "snake (resetGame stepDraws (sampleState [(2, 2), (2, 3), (3, 3), (3, 2), (4, 2)] (0, - 1) (12, 3)))
     = [(9, 8), (8, 8), (7, 8)]
   \<and> dir (resetGame stepDraws (sampleState [(2, 2), (2, 3), (3, 3), (3, 2), (4, 2)] (0, - 1) (12, 3)))
     = (1, 0)
   \<and> nextDir (resetGame stepDraws (sampleState [(2, 2), (2, 3), (3, 3), (3, 2), (4, 2)] (0, - 1) (12, 3)))
     = (1, 0)
   \<and> score (resetGame stepDraws (sampleState [(2, 2), (2, 3), (3, 3), (3, 2), (4, 2)] (0, - 1) (12, 3)))
     = 0
   \<and> \<not> gameOver (resetGame stepDraws (sampleState [(2, 2), (2, 3), (3, 3), (3, 2), (4, 2)] (0, - 1) (12, 3)))
   \<and> score (sampleState [(2, 2), (2, 3), (3, 3), (3, 2), (4, 2)] (0, - 1) (12, 3)) = 4"
  using resetGame_initial [of stepDraws "sampleState [(2, 2), (2, 3), (3, 3), (3, 2), (4, 2)] (0, - 1) (12, 3)"]
  by (simp add: sampleState_def)

lemma resetGame_stats [simp]: "stats (resetGame rnd st) = stats st"
proof -
  obtain n f where "resetGame rnd st =
     st\<lparr>score := 0, gameOver := False, dir := (1, 0), nextDir := (1, 0),
        snake := [(9, 8), (8, 8), (7, 8)], food := f, rpos := n, restartHidden := True\<rparr>"
    using resetGame_result by blast
  then show ?thesis by simp
qed

text \<open>
  Claim C8. \<^verbatim>\<open>startNewGame()\<close> sets the attempt count of today's key to its old value
  plus 1, a missing entry counting as 0, and leaves the count of every other key as it was.
\<close>

theorem startNewGame_counts_attempt:
  "attemptsOn (stats (startNewGame rnd today st)) today
     = Some ((case attemptsOn (stats st) today of None \<Rightarrow> 0 | Some c \<Rightarrow> c) + 1)
   \<and> (\<forall>k. k \<noteq> today \<longrightarrow>
         attemptsOn (stats (startNewGame rnd today st)) k = attemptsOn (stats st) k)"
  by (cases "attemptsByDay (stats st)")
     (simp_all add: startNewGame_def recordAttemptStart_def Let_def updateHud_def saveStats_def
        attemptsOn_def)

theorem startNewGame_counts_attempt_witness:
  "''2026-01-05'' \<noteq> ''2026-01-06''
   \<and> attemptsOn (stats (sampleState [(5, 5), (4, 5), (3, 5)] (1, 0) (6, 5))) ''2026-01-06'' = None
   \<and> attemptsOn (stats (startNewGame stepDraws ''2026-01-06''
        (sampleState [(5, 5), (4, 5), (3, 5)] (1, 0) (6, 5)))) ''2026-01-06'' = Some 1
   \<and> attemptsOn (stats (startNewGame stepDraws ''2026-01-06''
        (sampleState [(5, 5), (4, 5), (3, 5)] (1, 0) (6, 5)))) ''2026-01-05'' = Some 3"
proof -
  let ?st = "sampleState [(5, 5), (4, 5), (3, 5)] (1, 0) (6, 5)"
  have ne: "''2026-01-05'' \<noteq> ''2026-01-06''"
    by simp
  have old: "attemptsOn (stats ?st) ''2026-01-06'' = None"
    "attemptsOn (stats ?st) ''2026-01-05'' = Some 3"
    by (simp_all add: attemptsOn_def sampleState_def)
  note inst = startNewGame_counts_attempt [of stepDraws "''2026-01-06''" ?st]
  from inst old(1)
  have today: "attemptsOn (stats (startNewGame stepDraws ''2026-01-06'' ?st)) ''2026-01-06'' = Some 1"
    by simp
  from inst
  have "\<forall>k. k \<noteq> ''2026-01-06'' \<longrightarrow>
          attemptsOn (stats (startNewGame stepDraws ''2026-01-06'' ?st)) k = attemptsOn (stats ?st) k"
    by (rule conjunct2)
  from this [rule_format, OF ne]
  have "attemptsOn (stats (startNewGame stepDraws ''2026-01-06'' ?st)) ''2026-01-05''
        = attemptsOn (stats ?st) ''2026-01-05''" .
  with old(2)
  have other: "attemptsOn (stats (startNewGame stepDraws ''2026-01-06'' ?st)) ''2026-01-05'' = Some 3"
    by simp
  show ?thesis
    by (rule conjI ne old(1) today other)+
qed

section \<open>Menu\<close>

text \<open>
  Claim C9. \<^verbatim>\<open>selectMenuItem(1)\<close> on a paused game makes the game state playing and the
  screen none; on a game that is not paused it changes neither.
\<close>

theorem selectMenuItem_continue:
  "(gameState st = Paused \<longrightarrow>
      gameState (selectMenuItem rnd today 1 st) = Playing
      \<and> uiScreen (selectMenuItem rnd today 1 st) = NoScreen)
   \<and> (gameState st \<noteq> Paused \<longrightarrow>
      gameState (selectMenuItem rnd today 1 st) = gameState st
      \<and> uiScreen (selectMenuItem rnd today 1 st) = uiScreen st)"
  by (simp add: selectMenuItem_def resumeGame_def)


theorem selectMenuItem_continue_witness:
  "gameState (pauseGame (sampleState [(5, 5), (4, 5), (3, 5)] (1, 0) (6, 5))) = Paused
   \<and> gameState (selectMenuItem stepDraws ''2026-01-05'' 1
        (pauseGame (sampleState [(5, 5), (4, 5), (3, 5)] (1, 0) (6, 5)))) = Playing
   \<and> uiScreen (selectMenuItem stepDraws ''2026-01-05'' 1
        (pauseGame (sampleState [(5, 5), (4, 5), (3, 5)] (1, 0) (6, 5)))) = NoScreen
   \<and> gameState ((sampleState [(5, 5), (4, 5), (3, 5)] (1, 0) (6, 5))\<lparr>gameState := Over, uiScreen := Menu\<rparr>)
       \<noteq> Paused
   \<and> gameState (selectMenuItem stepDraws ''2026-01-05'' 1
        ((sampleState [(5, 5), (4, 5), (3, 5)] (1, 0) (6, 5))\<lparr>gameState := Over, uiScreen := Menu\<rparr>)) = Over
   \<and> uiScreen (selectMenuItem stepDraws ''2026-01-05'' 1
        ((sampleState [(5, 5), (4, 5), (3, 5)] (1, 0) (6, 5))\<lparr>gameState := Over, uiScreen := Menu\<rparr>)) = Menu"
proof -
  let ?paused = "pauseGame (sampleState [(5, 5), (4, 5), (3, 5)] (1, 0) (6, 5))"
  let ?over = "(sampleState [(5, 5), (4, 5), (3, 5)] (1, 0) (6, 5))\<lparr>gameState := Over, uiScreen := Menu\<rparr>"
  have p: "gameState ?paused = Paused"
    by (simp add: pauseGame_def sampleState_def)
  have o: "gameState ?over \<noteq> Paused" "gameState ?over = Over" "uiScreen ?over = Menu"
    by simp_all
  from selectMenuItem_continue [of ?paused stepDraws "''2026-01-05''"] p
  have a: "gameState (selectMenuItem stepDraws ''2026-01-05'' 1 ?paused) = Playing"
    "uiScreen (selectMenuItem stepDraws ''2026-01-05'' 1 ?paused) = NoScreen"
    by blast+
  from selectMenuItem_continue [of ?over stepDraws "''2026-01-05''"] o(1)
  have "gameState (selectMenuItem stepDraws ''2026-01-05'' 1 ?over) = gameState ?over"
    "uiScreen (selectMenuItem stepDraws ''2026-01-05'' 1 ?over) = uiScreen ?over"
    by blast+
  with o have b: "gameState (selectMenuItem stepDraws ''2026-01-05'' 1 ?over) = Over"
    "uiScreen (selectMenuItem stepDraws ''2026-01-05'' 1 ?over) = Menu"
    by simp_all
  from p a o(1) b show ?thesis by blast
qed



section \<open>The states of a started program\<close>

text \<open>
  After the bootstrap the snake is never empty, all its cells are on the grid and the
  pending direction is one of the four unit vectors, whatever the handlers do; so
  \<^verbatim>\<open>tick\<close> never reads the head of an empty snake.
\<close>

lemma tickBody_cells:
  "snake st \<noteq> [] \<Longrightarrow> tickBody st \<noteq> [] \<and> set (tickBody st) \<subseteq> insert (tickHead st) (set (snake st))"
  by (auto simp: tickBody_def candidateBody_def dest: in_set_butlastD)

lemma tickBody_wellFormed:
  assumes "wellFormed st"
  shows "tickBody st \<noteq> [] \<and> list_all in_grid (tickBody st)"
proof -
  from assms have ne: "snake st \<noteq> []" and grid: "\<forall>c \<in> set (snake st). in_grid c"
    and d: "nextDir st \<in> set directions"
    by (simp_all add: wellFormed_def list_all_iff)
  from ne grid have "in_grid (hd (snake st))" by simp
  from this d have "in_grid (tickHead st)"
    unfolding tickHead_def by (rule newHead_on_grid)
  with grid tickBody_cells [OF ne] show ?thesis
    by (auto simp: list_all_iff)
qed

lemma spawnFood_wellFormed: "wellFormed st \<Longrightarrow> wellFormed (spawnFood rnd st)"
proof -
  assume wf: "wellFormed st"
  obtain n f where "spawnFood rnd st = st\<lparr>food := f, rpos := n\<rparr>"
    using spawnFood_frame by blast
  with wf show ?thesis by (simp add: wellFormed_def)
qed

lemma maybeUpdateBest_wellFormed: "wellFormed st \<Longrightarrow> wellFormed (maybeUpdateBest st)"
proof -
  assume wf: "wellFormed st"
  obtain b where "maybeUpdateBest st = st\<lparr>stats := (stats st)\<lparr>bestScore := b\<rparr>\<rparr>"
    using maybeUpdateBest_frame by blast
  with wf show ?thesis by (simp add: wellFormed_def)
qed

lemma tick_wellFormed:
  assumes "wellFormed st"
  shows "\<exists>st'. tick rnd st = Inr st' \<and> wellFormed st'"
proof (cases "gameOver st \<or> gameState st \<noteq> Playing")
  case True
  with assms show ?thesis by (simp add: tick_idle)
next
  case False
  then have run: "gameState st = Playing" "\<not> gameOver st" by simp_all
  from assms have ne: "snake st \<noteq> []" by (simp add: wellFormed_def)
  note body = tickBody_wellFormed [OF assms]
  have moved: "wellFormed (st\<lparr>dir := nextDir st, snake := tickBody st\<rparr>)"
    using assms body by (simp add: wellFormed_def)
  show ?thesis
  proof (cases "selfCollides st")
    case True
    with run ne assms show ?thesis
      by (simp add: tick_playing wellFormed_def)
  next
    case noHit: False
    show ?thesis
    proof (cases "tickAte st")
      case True
      have "wellFormed (st\<lparr>dir := nextDir st, snake := tickBody st, score := score st + 1\<rparr>)"
        using moved by (simp add: wellFormed_def)
      then have "wellFormed (updateHud (maybeUpdateBest (spawnFood rnd
                  (st\<lparr>dir := nextDir st, snake := tickBody st, score := score st + 1\<rparr>))))"
        unfolding updateHud_def by (intro maybeUpdateBest_wellFormed spawnFood_wellFormed)
      with run ne noHit True show ?thesis
        by (simp add: tick_playing)
    next
      case False
      with run ne noHit moved show ?thesis
        by (simp add: tick_playing)
    qed
  qed
qed

lemma resetGame_wellFormed: "wellFormed (resetGame rnd st)"
proof -
  obtain n f where "resetGame rnd st =
     st\<lparr>score := 0, gameOver := False, dir := (1, 0), nextDir := (1, 0),
        snake := [(9, 8), (8, 8), (7, 8)], food := f, rpos := n, restartHidden := True\<rparr>"
    using resetGame_result by blast
  then show ?thesis
    by (simp add: wellFormed_def in_grid_def directions_def GRID_COLS_def GRID_ROWS_def)
qed

lemma startNewGame_wellFormed: "wellFormed (startNewGame rnd today st)"
  using resetGame_wellFormed [of rnd st]
  by (simp add: startNewGame_def recordAttemptStart_def Let_def updateHud_def saveStats_def
      wellFormed_def)

lemma bootstrap_wellFormed: "wellFormed (bootstrap rnd loaded hidden)"
  using resetGame_wellFormed [of rnd "initialState loaded hidden"]
  by (simp add: bootstrap_def updateHud_def wellFormed_def)

lemma perform_wellFormed:
  assumes "wellFormed st" and "handlerOperation a"
  shows "\<exists>st'. perform rnd today a st = Inr st' \<and> wellFormed st'"
proof (cases a)
  case Tick
  with tick_wellFormed [OF assms(1)] show ?thesis by simp
next
  case (SetDirection x y)
  with assms show ?thesis
    by (simp add: setDirection_def wellFormed_def)
next
  case (SelectMenuItem i)
  with assms startNewGame_wellFormed [of rnd today st] show ?thesis
    by (auto simp: selectMenuItem_def resumeGame_def wellFormed_def)
next
  case StartNewGame
  with startNewGame_wellFormed [of rnd today st] show ?thesis by simp
qed (use assms in \<open>simp_all add: pauseGame_def resumeGame_def togglePause_def wellFormed_def\<close>)

lemma performAll_wellFormed:
  assumes "wellFormed st" and "list_all handlerOperation ops"
  shows "\<exists>st'. performAll rnd today ops st = Inr st' \<and> wellFormed st'"
  using assms
proof (induction ops arbitrary: st)
  case Nil
  then show ?case by simp
next
  case (Cons a ops)
  then have "handlerOperation a" and rest: "list_all handlerOperation ops" by simp_all
  from perform_wellFormed [OF Cons.prems(1) this(1), of rnd today]
  obtain st1 where st1: "perform rnd today a st = Inr st1" "wellFormed st1" by blast
  from Cons.IH [OF st1(2) rest] st1(1) show ?case by simp
qed

lemma started_program_never_throws:
  assumes "list_all handlerOperation ops"
  shows "\<exists>st'. performAll rnd today ops (bootstrap rnd loaded hidden) = Inr st' \<and> wellFormed st'"
  using bootstrap_wellFormed assms by (rule performAll_wellFormed)


end
